theory Spec2Isabelle
  imports Main
begin

section \<open>The header \<open>macrokid/examples/graphics_demo/include/demo.hpp\<close>\<close>

text \<open>
  The repository's only source file is a header that declares two annotated aggregates and
  has no function. Its text is embedded line by line, character for character (the file has
  no newline after its last line). Every fact below is computed from this text by a reader
  for the fragment of C++ declaration syntax the header is written in.
\<close>

definition demo_hpp :: "string list" where
  \<open>demo_hpp =
  [''#pragma once'',
   '''',
   ''struct __attribute__((annotate("mk::struct(tag=vertex)"))) DemoVertex {'',
   ''    float pos[3];'',
   ''    float __attribute__((annotate("mk::vertex(location=1,format=vec3)"))) normal[3];'',
   ''    float __attribute__((annotate("mk::vertex(location=2,format=vec2)"))) uv[2];'',
   ''};'',
   '''',
   ''struct Material {'',
   ''    int __attribute__((annotate("mk::resource(kind=uniform,set=0,binding=0)"))) id;'',
   ''};'']\<close>

section \<open>Tokens\<close>

datatype token =
    TDirective string  \<comment> \<open>a preprocessor line, from its \<open>#\<close> to the end of the line\<close>
  | TIdent string
  | TNum nat
  | TStr string        \<comment> \<open>a string literal, without its quotes\<close>
  | TSym char          \<comment> \<open>any other character\<close>
  | TBad               \<comment> \<open>an unterminated or escaped string literal\<close>

definition is_space :: "char \<Rightarrow> bool" where
  "is_space c = (c \<in> set [CHR '' '', CHR 0x09, CHR 0x0D])"

definition is_digit :: "char \<Rightarrow> bool" where
  "is_digit c = (c \<in> set ''0123456789'')"

definition is_ident_start :: "char \<Rightarrow> bool" where
  "is_ident_start c =
     (c \<in> set ''abcdefghijklmnopqrstuvwxyzABCDEFGHIJKLMNOPQRSTUVWXYZ_'')"

definition is_ident_char :: "char \<Rightarrow> bool" where
  "is_ident_char c = (is_ident_start c \<or> is_digit c)"

definition dquote :: char where
  "dquote = CHR 0x22"

definition backslash :: char where
  "backslash = CHR 0x5C"

definition not_dquote :: "char \<Rightarrow> bool" where
  "not_dquote c = (c \<noteq> dquote)"

definition digit_value :: "char \<Rightarrow> nat" where
  "digit_value c = of_char c - 48"

definition decimal :: "string \<Rightarrow> nat" where
  "decimal s = foldl (\<lambda>n c. 10 * n + digit_value c) 0 s"

function lex :: "string \<Rightarrow> token list" where
  "lex [] = []"
| "lex (c # cs) =
     (if is_space c then lex cs
      else if is_ident_start c then
        TIdent (c # takeWhile is_ident_char cs) # lex (dropWhile is_ident_char cs)
      else if is_digit c then
        TNum (decimal (c # takeWhile is_digit cs)) # lex (dropWhile is_digit cs)
      else if c = dquote then
        (if dropWhile not_dquote cs = [] \<or> backslash \<in> set (takeWhile not_dquote cs)
         then [TBad]
         else TStr (takeWhile not_dquote cs) # lex (tl (dropWhile not_dquote cs)))
      else TSym c # lex cs)"
  by pat_completeness auto
termination
proof (relation "measure length")
  fix c :: char and cs :: string
  have "length (dropWhile not_dquote cs) \<le> length cs"
    by (rule length_dropWhile_le)
  then show "(tl (dropWhile not_dquote cs), c # cs) \<in> measure length"
    by simp
qed (simp_all add: length_dropWhile_le less_Suc_eq_le)

definition lex_line :: "string \<Rightarrow> token list" where
  "lex_line l =
     (case dropWhile is_space l of
        [] \<Rightarrow> []
      | c # cs \<Rightarrow> if c = CHR ''#'' then [TDirective (c # cs)] else lex (c # cs))"

definition lex_file :: "string list \<Rightarrow> token list" where
  "lex_file ls = concat (map lex_line ls)"

definition newline :: char where
  "newline = CHR 0x0A"

text \<open>The bytes of a file whose lines are \<open>ls\<close>, the last one without a newline.\<close>

fun contents :: "string list \<Rightarrow> string" where
  "contents [] = []"
| "contents [l] = l"
| "contents (l # ls) = l @ newline # contents ls"

section \<open>Declarations\<close>

text \<open>
  What a header can declare, as far as the reader goes: data members and variables (with
  their array extents, \<open>[]\<close> for a scalar), functions (member functions, and constructors,
  which have no return type), aggregates with their base classes and with the variables
  declared after their closing brace, and preprocessor lines. Every declaration carries the
  strings of its \<open>annotate\<close> attributes, in order.
\<close>

datatype entity =
    Variable (e_type: string) (e_annots: "string list") (e_name: string) "nat list"
  | Function (e_type: string) (e_annots: "string list") (e_name: string)

datatype struct =
  Struct (s_annots: "string list") (s_name: string) (s_bases: "string list")
         (s_members: "entity list") (s_declarators: "string list")

datatype decl =
    Directive string
  | Aggregate struct
  | Global entity

fun extents :: "entity \<Rightarrow> nat list" where
  "extents (Variable ty as nm ns) = ns"
| "extents (Function ty as nm) = []"

fun is_variable :: "entity \<Rightarrow> bool" where
  "is_variable (Variable ty as nm ns) = True"
| "is_variable (Function ty as nm) = False"

section \<open>Reading declarations\<close>

definition reserved_words :: "string list" where
  "reserved_words = [''struct'', ''class'', ''union'', ''enum'', ''__attribute__'',
     ''operator'', ''template'', ''typedef'', ''using'', ''namespace'', ''static'',
     ''const'', ''public'', ''private'', ''protected'', ''virtual'', ''friend'']"

definition is_name :: "string \<Rightarrow> bool" where
  "is_name s = (s \<notin> set reserved_words)"

definition sym :: "string \<Rightarrow> token list" where
  "sym s = map TSym s"

fun strip_prefix :: "token list \<Rightarrow> token list \<Rightarrow> token list option" where
  "strip_prefix [] ts = Some ts"
| "strip_prefix (p # ps) [] = None"
| "strip_prefix (p # ps) (t # ts) = (if p = t then strip_prefix ps ts else None)"

text \<open>One attribute \<open>__attribute__((annotate("...")))\<close>: its string, and the tokens after it.\<close>

definition read_attribute :: "token list \<Rightarrow> (string \<times> token list) option" where
  "read_attribute ts =
     (case strip_prefix
             (TIdent ''__attribute__'' # sym ''(('' @ TIdent ''annotate'' # sym ''('') ts of
        Some (TStr s # r) \<Rightarrow>
          (case strip_prefix (sym '')))'') r of
             Some r' \<Rightarrow> Some (s, r')
           | None \<Rightarrow> None)
      | _ \<Rightarrow> None)"

lemma strip_prefix_length:
  "strip_prefix ps ts = Some r \<Longrightarrow> length ts = length ps + length r"
  by (induction ps ts rule: strip_prefix.induct) (auto split: if_splits)

lemma read_attribute_length:
  "read_attribute ts = Some (s, r) \<Longrightarrow> length r < length ts"
  by (auto simp: read_attribute_def sym_def split: option.splits list.splits token.splits
           dest!: strip_prefix_length)

function read_attributes :: "token list \<Rightarrow> string list \<times> token list" where
  "read_attributes ts =
     (case read_attribute ts of
        None \<Rightarrow> ([], ts)
      | Some (s, r) \<Rightarrow> (case read_attributes r of (ss, r') \<Rightarrow> (s # ss, r')))"
  by pat_completeness auto
termination
  by (relation "measure length") (auto dest: read_attribute_length)

declare read_attributes.simps [simp del]

text \<open>Array extents \<open>[n]\<close>, any number of them.\<close>

fun read_dims :: "token list \<Rightarrow> nat list \<times> token list" where
  "read_dims (TSym a # TNum n # TSym b # ts) =
     (if a = CHR ''['' \<and> b = CHR '']''
      then (case read_dims ts of (ns, r) \<Rightarrow> (n # ns, r))
      else ([], TSym a # TNum n # TSym b # ts))"
| "read_dims ts = ([], ts)"

text \<open>Identifiers separated by commas.\<close>

fun read_names :: "token list \<Rightarrow> string list \<times> token list" where
  "read_names (TIdent a # TSym c # TIdent b # ts) =
     (if c = CHR '','' then (case read_names (TIdent b # ts) of (ns, r) \<Rightarrow> (a # ns, r))
      else ([a], TSym c # TIdent b # ts))"
| "read_names (TIdent a # ts) = ([a], ts)"
| "read_names ts = ([], ts)"

definition is_open :: "token \<Rightarrow> bool" where
  "is_open t = (t \<in> set (sym ''([{''))"

definition is_close :: "token \<Rightarrow> bool" where
  "is_close t = (t \<in> set (sym '')]}''))"

text \<open>
  The tokens after the bracket that closes the group the reader is in, \<open>d\<close> groups deep
  inside it: a parameter list or a function body is skipped, not read.
\<close>

fun skip_group :: "nat \<Rightarrow> token list \<Rightarrow> token list option" where
  "skip_group d [] = None"
| "skip_group d (t # ts) =
     (if is_open t then skip_group (Suc d) ts
      else if is_close t then (case d of 0 \<Rightarrow> Some ts | Suc d' \<Rightarrow> skip_group d' ts)
      else skip_group d ts)"

definition finish_variable ::
    "string \<Rightarrow> string list \<Rightarrow> string \<Rightarrow> token list \<Rightarrow> (entity \<times> token list) option" where
  "finish_variable ty as nm ts =
     (case read_dims ts of
        (ns, TSym c # r) \<Rightarrow> if c = CHR '';'' then Some (Variable ty as nm ns, r) else None
      | _ \<Rightarrow> None)"

text \<open>After the \<open>(\<close> of a parameter list: a prototype ends in \<open>;\<close>, a definition has a body.\<close>

definition finish_function ::
    "string \<Rightarrow> string list \<Rightarrow> string \<Rightarrow> token list \<Rightarrow> (entity \<times> token list) option" where
  "finish_function ty as nm ts =
     (case skip_group 0 ts of
        Some (TSym c # r) \<Rightarrow>
          if c = CHR '';'' then Some (Function ty as nm, r)
          else if c = CHR ''{'' then
            (case skip_group 0 r of Some r' \<Rightarrow> Some (Function ty as nm, r') | None \<Rightarrow> None)
          else None
      | _ \<Rightarrow> None)"

text \<open>
  One variable or function: \<open>type attributes name extents ;\<close>, \<open>type attributes name ( ...\<close>,
  or \<open>name ( ...\<close> (a constructor). Anything else is not read.
\<close>

definition read_entity :: "token list \<Rightarrow> (entity \<times> token list) option" where
  "read_entity ts =
     (case ts of
        TIdent ty # TSym c # r \<Rightarrow>
          if is_name ty \<and> c = CHR ''('' then finish_function [] [] ty r else None
      | TIdent ty # r \<Rightarrow>
          if is_name ty then
            (case read_attributes r of
               (as, TIdent nm # TSym c # r') \<Rightarrow>
                 if is_name nm then
                   (if c = CHR ''('' then finish_function ty as nm r'
                    else finish_variable ty as nm (TSym c # r'))
                 else None
             | _ \<Rightarrow> None)
          else None
      | _ \<Rightarrow> None)"

lemma read_attributes_length:
  "read_attributes ts = (ss, r) \<Longrightarrow> length r \<le> length ts"
proof (induction ts arbitrary: ss r rule: read_attributes.induct)
  case (1 ts)
  show ?case
  proof (cases "read_attribute ts")
    case None
    with "1.prems" show ?thesis by (simp add: read_attributes.simps [of ts])
  next
    case (Some p)
    obtain s r0 where p: "p = (s, r0)" by (cases p)
    obtain ss' r' where rec: "read_attributes r0 = (ss', r')" by (cases "read_attributes r0")
    from Some p have "length r0 < length ts" by (simp add: read_attribute_length)
    moreover from "1.IH" [OF Some p [symmetric] rec] have "length r' \<le> length r0" .
    moreover from "1.prems" Some p rec have "r = r'"
      by (simp add: read_attributes.simps [of ts])
    ultimately show ?thesis by simp
  qed
qed

lemma read_dims_length:
  "read_dims ts = (ns, r) \<Longrightarrow> length r \<le> length ts"
  by (induction ts arbitrary: ns r rule: read_dims.induct)
     (auto split: if_splits prod.splits)

lemma read_names_length:
  "read_names ts = (ns, r) \<Longrightarrow> length r \<le> length ts"
  by (induction ts arbitrary: ns r rule: read_names.induct)
     (auto split: if_splits prod.splits)

lemma skip_group_length:
  "skip_group d ts = Some r \<Longrightarrow> length r < length ts"
  by (induction d ts rule: skip_group.induct)
     (fastforce split: if_splits nat.splits)+

lemma finish_variable_length:
  "finish_variable ty as nm ts = Some (e, r) \<Longrightarrow> length r < length ts"
  by (auto simp: finish_variable_def split: prod.splits list.splits token.splits if_splits
           dest: read_dims_length)

lemma finish_function_length:
  "finish_function ty as nm ts = Some (e, r) \<Longrightarrow> length r < length ts"
  by (auto simp: finish_function_def split: option.splits list.splits token.splits if_splits
           dest!: skip_group_length)

lemma read_entity_length:
  "read_entity ts = Some (e, r) \<Longrightarrow> length r < length ts"
  by (auto simp: read_entity_def
           split: prod.splits list.splits token.splits if_splits
           dest!: finish_function_length finish_variable_length read_attributes_length)

text \<open>The members of an aggregate, up to its closing brace.\<close>

function read_members :: "token list \<Rightarrow> (entity list \<times> token list) option" where
  "read_members [] = None"
| "read_members (t # ts) =
     (if t = TSym CHR ''}'' then Some ([], ts)
      else
        (case read_entity (t # ts) of
           None \<Rightarrow> None
         | Some (e, r) \<Rightarrow>
             (case read_members r of
                None \<Rightarrow> None
              | Some (es, r') \<Rightarrow> Some (e # es, r'))))"
  by pat_completeness auto
termination
  by (relation "measure length") (auto dest: read_entity_length)

lemma read_members_length:
  "read_members ts = Some (es, r) \<Longrightarrow> length r < length ts"
proof (induction ts arbitrary: es r rule: read_members.induct)
  case 1
  then show ?case by simp
next
  case (2 t ts)
  show ?case
  proof (cases "t = TSym CHR ''}''")
    case True
    with "2.prems" show ?thesis by simp
  next
    case False
    from False "2.prems" obtain e r0 es' where
      ent: "read_entity (t # ts) = Some (e, r0)" and
      rec: "read_members r0 = Some (es', r)"
      by (auto split: option.splits)
    from "2.IH" [OF False ent refl rec] have "length r < length r0" .
    moreover from ent have "length r0 < length (t # ts)" by (rule read_entity_length)
    ultimately show ?thesis by simp
  qed
qed

definition read_bases :: "token list \<Rightarrow> string list \<times> token list" where
  "read_bases ts =
     (case ts of
        TSym c # r \<Rightarrow> if c = CHR '':'' then read_names r else ([], ts)
      | _ \<Rightarrow> ([], ts))"

text \<open>
  What follows the keyword \<open>struct\<close>: attributes, the name, base classes, the members in
  braces, the variables declared with the aggregate, and \<open>;\<close>.
\<close>

definition read_struct :: "token list \<Rightarrow> (struct \<times> token list) option" where
  "read_struct ts =
     (case read_attributes ts of
        (as, TIdent nm # r) \<Rightarrow>
          if is_name nm then
            (case read_bases r of
               (bs, TSym c # r1) \<Rightarrow>
                 if c = CHR ''{'' then
                   (case read_members r1 of
                      None \<Rightarrow> None
                    | Some (ms, r2) \<Rightarrow>
                        (case read_names r2 of
                           (ds, TSym c' # r3) \<Rightarrow>
                             if c' = CHR '';'' then Some (Struct as nm bs ms ds, r3) else None
                         | _ \<Rightarrow> None))
                 else None
             | _ \<Rightarrow> None)
          else None
      | _ \<Rightarrow> None)"

lemma read_bases_length:
  "read_bases ts = (bs, r) \<Longrightarrow> length r \<le> length ts"
  by (auto simp: read_bases_def split: list.splits token.splits if_splits
           dest: read_names_length)

lemma read_struct_length:
  "read_struct ts = Some (s, r) \<Longrightarrow> length r < length ts"
  by (auto simp: read_struct_def
           split: prod.splits list.splits token.splits if_splits option.splits
           dest!: read_attributes_length read_bases_length read_members_length
                  read_names_length)

text \<open>A whole file: the reader gives \<open>None\<close> as soon as something is not in its fragment.\<close>

function read_decls :: "token list \<Rightarrow> decl list option" where
  "read_decls [] = Some []"
| "read_decls (t # ts) =
     (case t of
        TDirective d \<Rightarrow>
          (case read_decls ts of None \<Rightarrow> None | Some ds \<Rightarrow> Some (Directive d # ds))
      | _ \<Rightarrow>
          if t = TIdent ''struct'' then
            (case read_struct ts of
               None \<Rightarrow> None
             | Some (s, r) \<Rightarrow>
                 (case read_decls r of None \<Rightarrow> None | Some ds \<Rightarrow> Some (Aggregate s # ds)))
          else
            (case read_entity (t # ts) of
               None \<Rightarrow> None
             | Some (e, r) \<Rightarrow>
                 (case read_decls r of None \<Rightarrow> None | Some ds \<Rightarrow> Some (Global e # ds))))"
  by pat_completeness auto
termination
  by (relation "measure length")
     (auto dest!: read_entity_length read_struct_length)

definition read_header :: "string list \<Rightarrow> decl list option" where
  "read_header ls = read_decls (lex_file ls)"

text \<open>The declarations of \<open>demo.hpp\<close>, written out; \<open>demo_hpp_read\<close> below ties them to the text.\<close>

definition DemoVertex :: struct where
  "DemoVertex =
     Struct [''mk::struct(tag=vertex)''] ''DemoVertex'' []
       [Variable ''float'' [] ''pos'' [3],
        Variable ''float'' [''mk::vertex(location=1,format=vec3)''] ''normal'' [3],
        Variable ''float'' [''mk::vertex(location=2,format=vec2)''] ''uv'' [2]]
       []"

definition Material :: struct where
  "Material =
     Struct [] ''Material'' []
       [Variable ''int'' [''mk::resource(kind=uniform,set=0,binding=0)''] ''id'' []]
       []"

definition demo_hpp_decls :: "decl list" where
  "demo_hpp_decls = [Directive ''#pragma once'', Aggregate DemoVertex, Aggregate Material]"

section \<open>Annotation strings\<close>

text \<open>
  An annotation string has the shape \<open>name(key=value,...)\<close>. The header gives the strings
  no meaning; the reading below only takes them apart at \<open>(\<close>, \<open>,\<close>, \<open>=\<close> and \<open>)\<close>.
\<close>

datatype annotation = Annotation (a_name: string) (a_args: "(string \<times> string) list")

fun split_on :: "char \<Rightarrow> string \<Rightarrow> string list" where
  "split_on d [] = [[]]"
| "split_on d (c # cs) =
     (if c = d then [] # split_on d cs
      else (case split_on d cs of [] \<Rightarrow> [[c]] | w # ws \<Rightarrow> (c # w) # ws))"

definition read_arg :: "string \<Rightarrow> (string \<times> string) option" where
  "read_arg s =
     (case dropWhile (\<lambda>c. c \<noteq> CHR ''='') s of
        [] \<Rightarrow> None
      | _ # v \<Rightarrow> Some (takeWhile (\<lambda>c. c \<noteq> CHR ''='') s, v))"

definition read_args :: "string \<Rightarrow> (string \<times> string) list option" where
  "read_args body =
     (if body = [] then Some [] else those (map read_arg (split_on CHR '','' body)))"

definition read_annotation :: "string \<Rightarrow> annotation option" where
  "read_annotation s =
     (case dropWhile (\<lambda>c. c \<noteq> CHR ''('') s of
        [] \<Rightarrow> None
      | _ # r \<Rightarrow>
          if r \<noteq> [] \<and> last r = CHR '')''
          then map_option (Annotation (takeWhile (\<lambda>c. c \<noteq> CHR ''('') s))
                 (read_args (butlast r))
          else None)"

definition read_nat :: "string \<Rightarrow> nat option" where
  "read_nat s = (if s \<noteq> [] \<and> list_all is_digit s then Some (decimal s) else None)"

definition arg :: "string \<Rightarrow> annotation \<Rightarrow> string option" where
  "arg k a = map_of (a_args a) k"

definition arg_nat :: "string \<Rightarrow> annotation \<Rightarrow> nat option" where
  "arg_nat k a = (case arg k a of None \<Rightarrow> None | Some v \<Rightarrow> read_nat v)"

text \<open>The number of components a format \<open>vecN\<close> names.\<close>

definition format_components :: "string \<Rightarrow> nat option" where
  "format_components f = (if take 3 f = ''vec'' then read_nat (drop 3 f) else None)"

section \<open>Questions about a file's declarations\<close>

text \<open>Where an annotation stands: on an aggregate, on a member of one, or on a global.\<close>

datatype site = OnStruct string | OnMember string string | OnGlobal string

fun annotations_of :: "decl \<Rightarrow> (site \<times> string) list" where
  "annotations_of (Directive d) = []"
| "annotations_of (Aggregate s) =
     map (Pair (OnStruct (s_name s))) (s_annots s) @
     concat (map (\<lambda>m. map (Pair (OnMember (s_name s) (e_name m))) (e_annots m))
               (s_members s))"
| "annotations_of (Global e) = map (Pair (OnGlobal (e_name e))) (e_annots e)"

definition annotations :: "decl list \<Rightarrow> (site \<times> string) list" where
  "annotations ds = concat (map annotations_of ds)"

text \<open>The annotations taken apart; \<open>None\<close> when one of the strings has another shape.\<close>

definition tags :: "decl list \<Rightarrow> (site \<times> annotation) list option" where
  "tags ds =
     those (map (\<lambda>(s, a). map_option (Pair s) (read_annotation a)) (annotations ds))"

definition tagged :: "string \<Rightarrow> (site \<times> annotation) list \<Rightarrow> (site \<times> annotation) list" where
  "tagged n ts = filter (\<lambda>(s, a). a_name a = n) ts"

fun string_literals :: "token list \<Rightarrow> string list" where
  "string_literals [] = []"
| "string_literals (TStr s # ts) = s # string_literals ts"
| "string_literals (t # ts) = string_literals ts"

fun identifiers :: "token list \<Rightarrow> string list" where
  "identifiers [] = []"
| "identifiers (TIdent s # ts) = s # identifiers ts"
| "identifiers (t # ts) = identifiers ts"

fun structs :: "decl list \<Rightarrow> struct list" where
  "structs [] = []"
| "structs (Aggregate s # ds) = s # structs ds"
| "structs (d # ds) = structs ds"

fun globals :: "decl list \<Rightarrow> entity list" where
  "globals [] = []"
| "globals (Global e # ds) = e # globals ds"
| "globals (d # ds) = globals ds"

fun directives :: "decl list \<Rightarrow> string list" where
  "directives [] = []"
| "directives (Directive d # ds) = d # directives ds"
| "directives (d # ds) = directives ds"

definition struct_named :: "string \<Rightarrow> decl list \<Rightarrow> struct option" where
  "struct_named n ds = find (\<lambda>s. s_name s = n) (structs ds)"

definition member_named :: "string \<Rightarrow> struct \<Rightarrow> entity option" where
  "member_named n s = find (\<lambda>m. e_name m = n) (s_members s)"

fun member_at :: "decl list \<Rightarrow> site \<Rightarrow> entity option" where
  "member_at ds (OnMember sn mn) =
     (case struct_named sn ds of None \<Rightarrow> None | Some s \<Rightarrow> member_named mn s)"
| "member_at ds (OnStruct sn) = None"
| "member_at ds (OnGlobal gn) = None"

text \<open>All functions of a file: member functions, constructors and global functions.\<close>

definition declared_functions :: "decl list \<Rightarrow> entity list" where
  "declared_functions ds =
     filter (\<lambda>e. \<not> is_variable e) (concat (map s_members (structs ds)) @ globals ds)"

text \<open>
  The objects a file creates: its global variables and the variables declared with an
  aggregate.
\<close>

definition instances :: "decl list \<Rightarrow> string list" where
  "instances ds =
     map e_name (filter is_variable (globals ds)) @ concat (map s_declarators (structs ds))"

text \<open>The type names an aggregate mentions: its bases and the types of its members.\<close>

definition mentioned_types :: "struct \<Rightarrow> string list" where
  "mentioned_types s = s_bases s @ map e_type (s_members s)"

text \<open>The scalar components of a member: the product of its extents, 1 for a scalar.\<close>

definition components :: "entity \<Rightarrow> nat" where
  "components m = prod_list (extents m)"

definition integral_types :: "string list" where
  "integral_types = [''bool'', ''char'', ''short'', ''int'', ''long'']"

definition floating_types :: "string list" where
  "floating_types = [''float'', ''double'']"

definition numeric_type :: "string \<Rightarrow> bool" where
  "numeric_type ty = (ty \<in> set (integral_types @ floating_types))"

text \<open>
  The format of a \<open>mk::vertex\<close> annotation fits the member it stands on when the member is an
  array of as many elements as the format has components.
\<close>

definition format_fits :: "decl list \<Rightarrow> site \<times> annotation \<Rightarrow> bool" where
  "format_fits ds sa =
     (case (member_at ds (fst sa), arg ''format'' (snd sa)) of
        (Some m, Some f) \<Rightarrow>
          (case format_components f of None \<Rightarrow> False | Some k \<Rightarrow> extents m = [k])
      | _ \<Rightarrow> False)"

section \<open>The header, read\<close>

lemma demo_hpp_size: "length (contents demo_hpp) = 378"
  by (simp add: demo_hpp_def newline_def)

lemma demo_hpp_tokens:
  "lex_file demo_hpp =
    [TDirective ''#pragma once'',
     TIdent ''struct'', TIdent ''__attribute__'', TSym CHR ''('', TSym CHR ''('',
       TIdent ''annotate'', TSym CHR ''('', TStr ''mk::struct(tag=vertex)'',
       TSym CHR '')'', TSym CHR '')'', TSym CHR '')'', TIdent ''DemoVertex'', TSym CHR ''{'',
     TIdent ''float'', TIdent ''pos'', TSym CHR ''['', TNum 3, TSym CHR '']'', TSym CHR '';'',
     TIdent ''float'', TIdent ''__attribute__'', TSym CHR ''('', TSym CHR ''('',
       TIdent ''annotate'', TSym CHR ''('', TStr ''mk::vertex(location=1,format=vec3)'',
       TSym CHR '')'', TSym CHR '')'', TSym CHR '')'',
       TIdent ''normal'', TSym CHR ''['', TNum 3, TSym CHR '']'', TSym CHR '';'',
     TIdent ''float'', TIdent ''__attribute__'', TSym CHR ''('', TSym CHR ''('',
       TIdent ''annotate'', TSym CHR ''('', TStr ''mk::vertex(location=2,format=vec2)'',
       TSym CHR '')'', TSym CHR '')'', TSym CHR '')'',
       TIdent ''uv'', TSym CHR ''['', TNum 2, TSym CHR '']'', TSym CHR '';'',
     TSym CHR ''}'', TSym CHR '';'',
     TIdent ''struct'', TIdent ''Material'', TSym CHR ''{'',
     TIdent ''int'', TIdent ''__attribute__'', TSym CHR ''('', TSym CHR ''('',
       TIdent ''annotate'', TSym CHR ''('',
       TStr ''mk::resource(kind=uniform,set=0,binding=0)'',
       TSym CHR '')'', TSym CHR '')'', TSym CHR '')'', TIdent ''id'', TSym CHR '';'',
     TSym CHR ''}'', TSym CHR '';'']"
  by code_simp

lemma demo_hpp_read: "read_header demo_hpp = Some demo_hpp_decls"
  by code_simp

lemma demo_hpp_tags:
  "tags demo_hpp_decls = Some
     [(OnStruct ''DemoVertex'', Annotation ''mk::struct'' [(''tag'', ''vertex'')]),
      (OnMember ''DemoVertex'' ''normal'',
         Annotation ''mk::vertex'' [(''location'', ''1''), (''format'', ''vec3'')]),
      (OnMember ''DemoVertex'' ''uv'',
         Annotation ''mk::vertex'' [(''location'', ''2''), (''format'', ''vec2'')]),
      (OnMember ''Material'' ''id'',
         Annotation ''mk::resource''
           [(''kind'', ''uniform''), (''set'', ''0''), (''binding'', ''0'')])]"
  by code_simp

subsection \<open>The reader on other files\<close>

text \<open>
  The reader tells functions, constructors, base classes and objects apart where a file has
  them, and refuses what it cannot classify, so that reading \<open>demo.hpp\<close> as data members only
  is a fact of its text.
\<close>

lemma read_header_classifies:
  "read_header
     [''struct A : B, C { int f(int x) { return x[1]; } A(); int y; } a, b;'',
      ''int g();'',
      ''A z[2][3];''] =
   Some
     [Aggregate (Struct [] ''A'' [''B'', ''C'']
        [Function ''int'' [] ''f'', Function [] [] ''A'', Variable ''int'' [] ''y'' []]
        [''a'', ''b'']),
      Global (Function ''int'' [] ''g''),
      Global (Variable ''A'' [] ''z'' [2, 3])]"
  by code_simp

lemma read_header_refuses:
  "read_header [''struct A { int operator+(); };''] = None"
  "read_header [''struct A { int x = 3; };''] = None"
  "read_header [''struct A { int x; }''] = None"
  "read_header [''struct A { int x; // c'', ''};''] = None"
  by code_simp+

section \<open>Properties of the header\<close>

lemmas demo_defs =
  demo_hpp_decls_def DemoVertex_def Material_def annotations_def struct_named_def
  member_named_def tagged_def arg_def arg_nat_def read_nat_def decimal_def digit_value_def
  is_digit_def format_components_def format_fits_def declared_functions_def instances_def
  mentioned_types_def components_def integral_types_def floating_types_def numeric_type_def

text \<open>
  Claim C1. The annotation strings of the header are exactly four, character for character:
  \<open>mk::struct(tag=vertex)\<close> on the aggregate \<open>DemoVertex\<close>,
  \<open>mk::vertex(location=1,format=vec3)\<close> on its member \<open>normal\<close>,
  \<open>mk::vertex(location=2,format=vec2)\<close> on its member \<open>uv\<close>, and
  \<open>mk::resource(kind=uniform,set=0,binding=0)\<close> on the member \<open>id\<close> of \<open>Material\<close>. There is
  no other annotation: these are all the string literals of the file, and the word
  \<open>annotate\<close> occurs four times.
\<close>

theorem annotation_strings_exact:
  "(\<exists>ds. read_header demo_hpp = Some ds \<and>
      annotations ds =
        [(OnStruct ''DemoVertex'', ''mk::struct(tag=vertex)''),
         (OnMember ''DemoVertex'' ''normal'', ''mk::vertex(location=1,format=vec3)''),
         (OnMember ''DemoVertex'' ''uv'', ''mk::vertex(location=2,format=vec2)''),
         (OnMember ''Material'' ''id'', ''mk::resource(kind=uniform,set=0,binding=0)'')]) \<and>
   string_literals (lex_file demo_hpp) =
     [''mk::struct(tag=vertex)'', ''mk::vertex(location=1,format=vec3)'',
      ''mk::vertex(location=2,format=vec2)'', ''mk::resource(kind=uniform,set=0,binding=0)''] \<and>
   count_list (identifiers (lex_file demo_hpp)) ''annotate'' = 4"
proof (intro conjI)
  show "\<exists>ds. read_header demo_hpp = Some ds \<and>
      annotations ds =
        [(OnStruct ''DemoVertex'', ''mk::struct(tag=vertex)''),
         (OnMember ''DemoVertex'' ''normal'', ''mk::vertex(location=1,format=vec3)''),
         (OnMember ''DemoVertex'' ''uv'', ''mk::vertex(location=2,format=vec2)''),
         (OnMember ''Material'' ''id'', ''mk::resource(kind=uniform,set=0,binding=0)'')]"
    by (rule exI [of _ demo_hpp_decls]) (simp add: demo_hpp_read demo_defs)
qed (simp_all add: demo_hpp_tokens)

text \<open>
  Claim C2. \<open>DemoVertex\<close> has exactly three members, all data members of a numeric type, in
  this order: \<open>pos\<close> of three elements, \<open>normal\<close> of three elements, \<open>uv\<close> of two elements.
\<close>

theorem DemoVertex_fields:
  "\<exists>ds s. read_header demo_hpp = Some ds \<and>
     map s_name (structs ds) = [''DemoVertex'', ''Material''] \<and>
     struct_named ''DemoVertex'' ds = Some s \<and>
     map (\<lambda>m. (e_name m, e_type m, extents m)) (s_members s) =
       [(''pos'', ''float'', [3]), (''normal'', ''float'', [3]), (''uv'', ''float'', [2])] \<and>
     list_all is_variable (s_members s) \<and>
     list_all (\<lambda>m. numeric_type (e_type m)) (s_members s)"
  using demo_hpp_read by (simp add: demo_defs)

text \<open>
  Claim C3. \<open>Material\<close> has exactly one member, the scalar \<open>id\<close> of the integral type
  \<open>int\<close>, and its annotation is a \<open>mk::resource\<close> of kind \<open>uniform\<close>, set 0 and binding 0.
\<close>

theorem Material_field:
  "\<exists>ds ts s. read_header demo_hpp = Some ds \<and> tags ds = Some ts \<and>
     struct_named ''Material'' ds = Some s \<and>
     map (\<lambda>m. (e_type m, e_name m, extents m)) (s_members s) = [(''int'', ''id'', [])] \<and>
     list_all is_variable (s_members s) \<and>
     list_all (\<lambda>m. e_type m \<in> set integral_types) (s_members s) \<and>
     filter (\<lambda>(st, a). st = OnMember ''Material'' ''id'') ts =
       [(OnMember ''Material'' ''id'',
         Annotation ''mk::resource''
           [(''kind'', ''uniform''), (''set'', ''0''), (''binding'', ''0'')])] \<and>
     map (\<lambda>(st, a). (st, arg ''kind'' a, arg_nat ''set'' a, arg_nat ''binding'' a))
         (tagged ''mk::resource'' ts) =
       [(OnMember ''Material'' ''id'', Some ''uniform'', Some 0, Some 0)]"
  using demo_hpp_read demo_hpp_tags by (simp add: demo_defs)

text \<open>
  Claim C4. Every member with a \<open>mk::vertex\<close> annotation is an array of as many elements as
  the annotation's format has components: \<open>normal\<close>, at location 1, has format \<open>vec3\<close> and
  three elements; \<open>uv\<close>, at location 2, has format \<open>vec2\<close> and two elements.
\<close>

theorem vertex_format_fits:
  "\<exists>ds ts. read_header demo_hpp = Some ds \<and> tags ds = Some ts \<and>
     map (\<lambda>(st, a). (st, arg_nat ''location'' a, arg ''format'' a,
                      map_option extents (member_at ds st)))
         (tagged ''mk::vertex'' ts) =
       [(OnMember ''DemoVertex'' ''normal'', Some 1, Some ''vec3'', Some [3]),
        (OnMember ''DemoVertex'' ''uv'', Some 2, Some ''vec2'', Some [2])] \<and>
     list_all (format_fits ds) (tagged ''mk::vertex'' ts) \<and>
     format_components ''vec3'' = Some 3 \<and> format_components ''vec2'' = Some 2"
  using demo_hpp_read demo_hpp_tags by (simp add: demo_defs)

text \<open>
  Claim C5. The header has 11 lines (10 newline characters, the last line unterminated)
  and declares exactly two aggregates, \<open>DemoVertex\<close> and \<open>Material\<close>. Each of them carries
  annotations, on the aggregate or on its members (\<open>DemoVertex\<close> on both, \<open>Material\<close> on its
  member only), and every annotation of the file is a \<open>mk::struct\<close>, a \<open>mk::vertex\<close> or a
  \<open>mk::resource\<close>.
\<close>

theorem header_two_annotated_structs:
  "length demo_hpp = 11 \<and> count_list (contents demo_hpp) newline = 10 \<and>
   (\<exists>ds ts. read_header demo_hpp = Some ds \<and> tags ds = Some ts \<and>
      directives ds = [''#pragma once''] \<and>
      map s_name (structs ds) = [''DemoVertex'', ''Material''] \<and>
      length (structs ds) = 2 \<and>
      list_all (\<lambda>s. annotations_of (Aggregate s) \<noteq> []) (structs ds) \<and>
      map s_annots (structs ds) = [[''mk::struct(tag=vertex)''], []] \<and>
      list_all (\<lambda>(st, a). a_name a \<in> set [''mk::struct'', ''mk::vertex'', ''mk::resource''])
        ts)"
proof (intro conjI)
  show "length demo_hpp = 11"
    by (simp add: demo_hpp_def)
  show "count_list (contents demo_hpp) newline = 10"
    by (simp add: demo_hpp_def newline_def)
  show "\<exists>ds ts. read_header demo_hpp = Some ds \<and> tags ds = Some ts \<and>
      directives ds = [''#pragma once''] \<and>
      map s_name (structs ds) = [''DemoVertex'', ''Material''] \<and>
      length (structs ds) = 2 \<and>
      list_all (\<lambda>s. annotations_of (Aggregate s) \<noteq> []) (structs ds) \<and>
      map s_annots (structs ds) = [[''mk::struct(tag=vertex)''], []] \<and>
      list_all (\<lambda>(st, a). a_name a \<in> set [''mk::struct'', ''mk::vertex'', ''mk::resource''])
        ts"
    using demo_hpp_read demo_hpp_tags by (simp add: demo_defs)
qed

text \<open>
  Claim C6. The header has no executable logic: after its \<open>#pragma once\<close> line every
  declaration is an aggregate without base classes whose members are all data members; it
  declares no function, member function or constructor, nothing at global scope, and the
  word \<open>operator\<close> does not occur.
\<close>

theorem no_executable_logic:
  "(\<exists>ds. read_header demo_hpp = Some ds \<and>
      ds = Directive ''#pragma once'' # map Aggregate (structs ds) \<and>
      list_all (\<lambda>s. list_all is_variable (s_members s) \<and> s_bases s = []) (structs ds) \<and>
      declared_functions ds = [] \<and> globals ds = []) \<and>
   ''operator'' \<notin> set (identifiers (lex_file demo_hpp))"
proof (intro conjI)
  show "\<exists>ds. read_header demo_hpp = Some ds \<and>
      ds = Directive ''#pragma once'' # map Aggregate (structs ds) \<and>
      list_all (\<lambda>s. list_all is_variable (s_members s) \<and> s_bases s = []) (structs ds) \<and>
      declared_functions ds = [] \<and> globals ds = []"
    by (rule exI [of _ demo_hpp_decls]) (simp add: demo_hpp_read demo_defs)
  show "''operator'' \<notin> set (identifiers (lex_file demo_hpp))"
    by (simp add: demo_hpp_tokens)
qed

text \<open>
  Claim C7. The two aggregates are independent: neither has a base class, no member of
  either has the other (or itself) as its type, each of the two names occurs once in the
  whole file, namely where it is declared, and the file declares no object of any type.
\<close>

theorem structs_independent:
  "(\<exists>ds. read_header demo_hpp = Some ds \<and>
      map s_name (structs ds) = [''DemoVertex'', ''Material''] \<and>
      list_all (\<lambda>s. list_all (\<lambda>n. n \<notin> set (map s_name (structs ds))) (mentioned_types s))
        (structs ds) \<and>
      list_all (\<lambda>s. s_bases s = []) (structs ds) \<and>
      instances ds = []) \<and>
   count_list (identifiers (lex_file demo_hpp)) ''DemoVertex'' = 1 \<and>
   count_list (identifiers (lex_file demo_hpp)) ''Material'' = 1"
proof (intro conjI)
  show "\<exists>ds. read_header demo_hpp = Some ds \<and>
      map s_name (structs ds) = [''DemoVertex'', ''Material''] \<and>
      list_all (\<lambda>s. list_all (\<lambda>n. n \<notin> set (map s_name (structs ds))) (mentioned_types s))
        (structs ds) \<and>
      list_all (\<lambda>s. s_bases s = []) (structs ds) \<and>
      instances ds = []"
    by (rule exI [of _ demo_hpp_decls]) (simp add: demo_hpp_read demo_defs)
qed (simp_all add: demo_hpp_tokens)

text \<open>
  Claim C8. The member \<open>pos\<close> of \<open>DemoVertex\<close> carries no annotation. The only vertex
  locations declared are 1, on \<open>normal\<close>, and 2, on \<open>uv\<close>; no annotation of the file names
  location 0.
\<close>

theorem pos_unannotated:
  "\<exists>ds ts. read_header demo_hpp = Some ds \<and> tags ds = Some ts \<and>
     member_at ds (OnMember ''DemoVertex'' ''pos'') = Some (Variable ''float'' [] ''pos'' [3]) \<and>
     filter (\<lambda>(st, a). st = OnMember ''DemoVertex'' ''pos'') (annotations ds) = [] \<and>
     map (\<lambda>(st, a). (st, arg_nat ''location'' a)) (tagged ''mk::vertex'' ts) =
       [(OnMember ''DemoVertex'' ''normal'', Some 1), (OnMember ''DemoVertex'' ''uv'', Some 2)] \<and>
     list_all (\<lambda>(st, a). arg_nat ''location'' a \<noteq> Some 0) ts"
  using demo_hpp_read demo_hpp_tags by (simp add: demo_defs)

text \<open>
  Claim C9. The binding identifiers do not collide: the locations of the \<open>mk::vertex\<close>
  annotations are 1 and 2, pairwise distinct, and exactly one annotation, the one on the
  member \<open>id\<close> of \<open>Material\<close>, is a \<open>mk::resource\<close> with set 0 and binding 0.
\<close>

theorem bindings_collision_free:
  "\<exists>ds ts. read_header demo_hpp = Some ds \<and> tags ds = Some ts \<and>
     map (\<lambda>(st, a). arg_nat ''location'' a) (tagged ''mk::vertex'' ts) = [Some 1, Some 2] \<and>
     distinct (map (\<lambda>(st, a). arg_nat ''location'' a) (tagged ''mk::vertex'' ts)) \<and>
     map (\<lambda>(st, a). (st, arg_nat ''set'' a, arg_nat ''binding'' a))
         (tagged ''mk::resource'' ts) =
       [(OnMember ''Material'' ''id'', Some 0, Some 0)] \<and>
     length (filter (\<lambda>(st, a). arg_nat ''set'' a = Some 0 \<and> arg_nat ''binding'' a = Some 0)
               (tagged ''mk::resource'' ts)) = 1"
  using demo_hpp_read demo_hpp_tags by (simp add: demo_defs)

text \<open>
  Claim C10. Every member of \<open>DemoVertex\<close> is declared with the type \<open>float\<close>, and the
  members have 3, 3 and 2 components, 8 in all; the only member of \<open>Material\<close> is declared
  with the type \<open>int\<close>.
\<close>

theorem element_types:
  "\<exists>ds v m. read_header demo_hpp = Some ds \<and>
     struct_named ''DemoVertex'' ds = Some v \<and> struct_named ''Material'' ds = Some m \<and>
     list_all is_variable (s_members v) \<and>
     map e_type (s_members v) = [''float'', ''float'', ''float''] \<and>
     map components (s_members v) = [3, 3, 2] \<and>
     sum_list (map components (s_members v)) = 8 \<and>
     list_all is_variable (s_members m) \<and>
     map e_type (s_members m) = [''int''] \<and>
     map components (s_members m) = [1]"
  using demo_hpp_read by (simp add: demo_defs)

end
